theory Spec2Isabelle
  imports Complex_Main "HOL-Library.Word"
begin

section \<open>JavaScript strings\<close>

text \<open>
  A JavaScript string is a sequence of UTF-16 code units, and \<open>length\<close>, \<open>slice\<close> and the
  regular expressions of \<open>ai-agent.ts\<close> (none carries the \<open>u\<close> flag) all work on code units.
  The literals of the source are ASCII; \<open>js\<close> turns an ASCII literal into code units.
\<close>

type_synonym jschar = "16 word"
type_synonym jsstring = "jschar list"

definition js :: "string \<Rightarrow> jsstring" where
  "js s = map of_char s"

text \<open>ECMAScript \<open>LineTerminator\<close>: LF, CR, U+2028, U+2029.\<close>

definition isLineTerminator :: "jschar \<Rightarrow> bool" where
  "isLineTerminator c = (c = 0x0A \<or> c = 0x0D \<or> c = 0x2028 \<or> c = 0x2029)"

text \<open>
  The characters of \<open>\s\<close> and of \<open>String.prototype.trim\<close>: ECMAScript \<open>WhiteSpace\<close>
  (TAB, VT, FF, U+FEFF and the Unicode space separators) together with the line terminators.
\<close>

definition isWhiteSpace :: "jschar \<Rightarrow> bool" where
  "isWhiteSpace c =
     (c = 0x09 \<or> c = 0x0A \<or> c = 0x0B \<or> c = 0x0C \<or> c = 0x0D \<or> c = 0x20 \<or> c = 0xA0
      \<or> c = 0x1680 \<or> (0x2000 \<le> c \<and> c \<le> 0x200A) \<or> c = 0x2028 \<or> c = 0x2029
      \<or> c = 0x202F \<or> c = 0x205F \<or> c = 0x3000 \<or> c = 0xFEFF)"

text \<open>\<open>s.trim()\<close>.\<close>

definition trim :: "jsstring \<Rightarrow> jsstring" where
  "trim s = rev (dropWhile isWhiteSpace (rev (dropWhile isWhiteSpace s)))"

text \<open>\<open>s.slice(0, n)\<close> for a non-negative \<open>n\<close>.\<close>

definition slice0 :: "jsstring \<Rightarrow> nat \<Rightarrow> jsstring" where
  "slice0 s n = take n s"

text \<open>\<open>s.includes(t)\<close>: \<open>t\<close> occurs in \<open>s\<close> as a contiguous run, compared code unit by code unit.\<close>

fun startsWith :: "jsstring \<Rightarrow> jsstring \<Rightarrow> bool" where
  "startsWith s [] = True"
| "startsWith [] (y # ys) = False"
| "startsWith (x # xs) (y # ys) = (x = y \<and> startsWith xs ys)"

fun includes_str :: "jsstring \<Rightarrow> jsstring \<Rightarrow> bool" where
  "includes_str [] t = (t = [])"
| "includes_str (x # xs) t = (startsWith (x # xs) t \<or> includes_str xs t)"

text \<open>\<open>xs.join(sep)\<close>.\<close>

fun join :: "jsstring list \<Rightarrow> jsstring \<Rightarrow> jsstring" where
  "join [] sep = []"
| "join [x] sep = x"
| "join (x # y # ys) sep = x @ sep @ join (y # ys) sep"

section \<open>The regular expressions of the source\<close>

text \<open>
  The five regular expression literals of \<open>ai-agent.ts\<close> are built from single characters,
  \<open>\s\<close>, \<open>.\<close>, greedy repetitions of one of these, \<open>^\<close>, \<open>$\<close>, sequence and alternation.
  For this fragment (no capture groups, no lookaround, no lazy quantifier) the backtracking
  matcher of ECMAScript is described by the list of positions at which an attempt started at
  one position can end, in the order in which backtracking tries them: the match taken is
  the head of that list.
\<close>

datatype atom = AChar jschar | ASpace | ADot

datatype regex =
    Atom atom
  | Rep atom nat "nat option"
  | Bol
  | Eol
  | Seq regex regex
  | Alt regex regex

record flags =
  ignoreCase :: bool
  global :: bool
  multiline :: bool

text \<open>
  \<open>Canonicalize\<close> of a non-Unicode, case-insensitive pattern: the upper-case form, except
  that a code unit from 128 on is never mapped below 128. Every pattern character of the source
  is ASCII, so only the ASCII letters matter: a code unit from 128 on stays at or above 128 and
  is left as it is here, which changes no comparison with an ASCII pattern character.
\<close>

definition canonicalize :: "jschar \<Rightarrow> jschar" where
  "canonicalize c = (if 0x61 \<le> c \<and> c \<le> 0x7A then c - 0x20 else c)"

fun atom_ok :: "flags \<Rightarrow> atom \<Rightarrow> jschar \<Rightarrow> bool" where
  "atom_ok f (AChar c) x = (if ignoreCase f then canonicalize x = canonicalize c else x = c)"
| "atom_ok f ASpace x = isWhiteSpace x"
| "atom_ok f ADot x = (\<not> isLineTerminator x)"

text \<open>
  \<open>ends f r p xs\<close>: the numbers of code units that a match of \<open>r\<close> can consume when it starts
  in front of \<open>xs\<close>, with \<open>p\<close> the code unit just before (\<open>None\<close> at the start of the input),
  most preferred first. A greedy repetition prefers the longest run.
\<close>

fun ends :: "flags \<Rightarrow> regex \<Rightarrow> jschar option \<Rightarrow> jsstring \<Rightarrow> nat list" where
  "ends f (Atom a) p xs = (case xs of [] \<Rightarrow> [] | x # _ \<Rightarrow> if atom_ok f a x then [1] else [])"
| "ends f (Rep a lo hi) p xs =
     (let n = length (takeWhile (atom_ok f a) xs);
          m = (case hi of None \<Rightarrow> n | Some h \<Rightarrow> min n h)
      in if m < lo then [] else rev [lo ..< Suc m])"
| "ends f Bol p xs =
     (case p of None \<Rightarrow> [0] | Some c \<Rightarrow> if multiline f \<and> isLineTerminator c then [0] else [])"
| "ends f Eol p xs =
     (case xs of [] \<Rightarrow> [0] | x # _ \<Rightarrow> if multiline f \<and> isLineTerminator x then [0] else [])"
| "ends f (Seq a b) p xs =
     concat (map (\<lambda>k. map (\<lambda>j. k + j)
                          (ends f b (if k = 0 then p else Some (xs ! (k - 1))) (drop k xs)))
                 (ends f a p xs))"
| "ends f (Alt a b) p xs = ends f a p xs @ ends f b p xs"

text \<open>
  \<open>RegExp.prototype.exec\<close> from the current position: the first position, scanning to the
  right, at which an attempt succeeds, as (offset of the match, its length).
\<close>

fun search :: "flags \<Rightarrow> regex \<Rightarrow> jschar option \<Rightarrow> jsstring \<Rightarrow> (nat \<times> nat) option" where
  "search f r p xs =
     (case ends f r p xs of
        k # _ \<Rightarrow> Some (0, k)
      | [] \<Rightarrow> (case xs of
                 [] \<Rightarrow> None
               | x # xs' \<Rightarrow> map_option (\<lambda>(i, k). (Suc i, k)) (search f r (Some x) xs')))"

text \<open>
  The matches of a global regular expression, left to right: after a match of \<open>k\<close> code units
  the next attempt starts behind it (one further on after an empty match). \<open>skip\<close> counts the
  code units still covered by the last match.
\<close>

fun scan :: "flags \<Rightarrow> regex \<Rightarrow> jschar option \<Rightarrow> jsstring \<Rightarrow> nat \<Rightarrow> jsstring list" where
  "scan f r p [] (Suc n) = []"
| "scan f r p (x # xs) (Suc n) = scan f r (Some x) xs n"
| "scan f r p [] 0 = (case ends f r p [] of k # _ \<Rightarrow> [[]] | [] \<Rightarrow> [])"
| "scan f r p (x # xs) 0 =
     (case ends f r p (x # xs) of
        k # _ \<Rightarrow> take k (x # xs) # scan f r (Some x) xs (k - 1)
      | [] \<Rightarrow> scan f r (Some x) xs 0)"

text \<open>\<open>s.match(re)\<close> for a global \<open>re\<close>: \<open>null\<close> when nothing matches, else all the matches.\<close>

definition match_g :: "flags \<Rightarrow> regex \<Rightarrow> jsstring \<Rightarrow> jsstring list option" where
  "match_g f r s = (case scan f r None s 0 of [] \<Rightarrow> None | m # ms \<Rightarrow> Some (m # ms))"

text \<open>\<open>re.test(s)\<close> on a freshly created regular expression (\<open>lastIndex = 0\<close>).\<close>

definition test :: "flags \<Rightarrow> regex \<Rightarrow> jsstring \<Rightarrow> bool" where
  "test f r s = (search f r None s \<noteq> None)"

text \<open>\<open>s.replace(re, '')\<close> for a non-global \<open>re\<close>: the first match is removed.\<close>

definition replace_empty :: "flags \<Rightarrow> regex \<Rightarrow> jsstring \<Rightarrow> jsstring" where
  "replace_empty f r s =
     (case search f r None s of None \<Rightarrow> s | Some (i, k) \<Rightarrow> take i s @ drop (i + k) s)"

text \<open>A literal run of characters as a regular expression.\<close>

fun lit :: "jsstring \<Rightarrow> regex" where
  "lit [] = Rep ADot 0 (Some 0)"
| "lit [c] = Atom (AChar c)"
| "lit (c # cs) = Seq (Atom (AChar c)) (lit cs)"

section \<open>JavaScript values\<close>

text \<open>
  The values a payload of the provider can be. Numbers are reals (\<open>NaN\<close> does not occur in a
  payload decoded from JSON); an object is the list of its own properties.
\<close>

datatype json =
    JUndefined
  | JNull
  | JBool bool
  | JNumber real
  | JString jsstring
  | JArray "json list"
  | JObject "(jsstring \<times> json) list"

text \<open>A value read as a condition.\<close>

fun truthy :: "json \<Rightarrow> bool" where
  "truthy JUndefined = False"
| "truthy JNull = False"
| "truthy (JBool b) = b"
| "truthy (JNumber x) = (x \<noteq> 0)"
| "truthy (JString s) = (s \<noteq> [])"
| "truthy (JArray xs) = True"
| "truthy (JObject kvs) = True"

text \<open>\<open>typeof v === 'object'\<close>\<close>

fun typeof_object :: "json \<Rightarrow> bool" where
  "typeof_object JNull = True"
| "typeof_object (JArray xs) = True"
| "typeof_object (JObject kvs) = True"
| "typeof_object v = False"

text \<open>
  \<open>v.name\<close> for one of the names the source reads (\<open>error\<close>, \<open>output\<close>, \<open>content\<close>,
  \<open>choices\<close>, \<open>message\<close>) on a value that is neither \<open>null\<close> nor \<open>undefined\<close>: only an object
  can have such a property.
\<close>

fun getProp :: "json \<Rightarrow> jsstring \<Rightarrow> json" where
  "getProp (JObject kvs) name = (case map_of kvs name of None \<Rightarrow> JUndefined | Some v \<Rightarrow> v)"
| "getProp v name = JUndefined"

text \<open>\<open>v[0]\<close> on a value that is neither \<open>null\<close> nor \<open>undefined\<close>.\<close>

fun index0 :: "json \<Rightarrow> json" where
  "index0 (JArray []) = JUndefined"
| "index0 (JArray (x # xs)) = x"
| "index0 (JString []) = JUndefined"
| "index0 (JString (c # cs)) = JString [c]"
| "index0 (JObject kvs) = getProp (JObject kvs) (js ''0'')"
| "index0 v = JUndefined"

text \<open>Optional chaining: \<open>v?.name\<close> and \<open>v?.[0]\<close>.\<close>

fun nullish :: "json \<Rightarrow> bool" where
  "nullish JUndefined = True"
| "nullish JNull = True"
| "nullish v = False"

definition opt_prop :: "json \<Rightarrow> jsstring \<Rightarrow> json" where
  "opt_prop v name = (if nullish v then JUndefined else getProp v name)"

definition opt_index0 :: "json \<Rightarrow> json" where
  "opt_index0 v = (if nullish v then JUndefined else index0 v)"

section \<open>Errors\<close>

datatype code = AUTH_ERROR | RATE_LIMIT | NETWORK_ERROR | INVALID_OUTPUT | UNKNOWN

text \<open>
  What the classification of the source reads from a caught value: its \<open>message\<close> and its
  \<open>code\<close>, either of which may be missing. The caught values of this model are objects
  whose \<open>message\<close>, when present, is a string; a thrown \<open>null\<close> or \<open>undefined\<close>, or a message
  that is no string, on which the reading itself throws, has no value here.
\<close>

record raw_error =
  message :: "jsstring option"
  errcode :: "jsstring option"

text \<open>
  A thrown value is a \<open>ReadmeGenerationError\<close> (message, code, retryable, originalError) or a
  value that the module did not create: an exception of the provider library or of the
  JavaScript engine. \<open>originalError\<close> is a caught exception or the \<open>error\<close> payload of a
  provider response.
\<close>

datatype thrown =
    ReadmeGenerationError jsstring code bool "(raw_error + json) option"
  | Raw raw_error

text \<open>\<open>err.retryable\<close> read as a condition: a value without the field gives \<open>undefined\<close>.\<close>

fun retryable :: "thrown \<Rightarrow> bool" where
  "retryable (ReadmeGenerationError m c r orig) = r"
| "retryable (Raw e) = False"

fun isReadmeGenerationError :: "thrown \<Rightarrow> bool" where
  "isReadmeGenerationError (ReadmeGenerationError m c r orig) = True"
| "isReadmeGenerationError (Raw e) = False"

section \<open>Prompt builder\<close>

datatype style = minimal | standard | enterprise

record ReadmeConfig =
  style :: "style option"
  includeArchitecture :: "bool option"
  includeSecurity :: "bool option"
  includeContributing :: "bool option"
  model :: "jsstring option"
  temperature :: "real option"
  streaming :: "bool option"

text \<open>An optional boolean read as a condition.\<close>

fun truthy_flag :: "bool option \<Rightarrow> bool" where
  "truthy_flag None = False"
| "truthy_flag (Some b) = b"

definition basePrompt :: jsstring where
  \<open>basePrompt = js
    (''You are a Senior Principal Engineer at a top-tier tech firm (like Vercel or Stripe). \<newline>'' @
     ''Your goal is to generate an ELITE, industry-standard README.md.\<newline>'' @
     ''\<newline>'' @
     ''STYLE GUIDELINES:\<newline>'' @
     ''- Use modern SVG icons (e.g., skill-icons or simple icons) for the Tech Stack.\<newline>'' @
     ''- Include professional Shields.io badges (Stars, Forks, License, Version).\<newline>'' @
     ''- Structure with deep hierarchy: Features (with emojis), Roadmap, Architecture (Mermaid), and Detailed Installation.\<newline>'' @
     ''- Create a "Quick Start" vs "Full Documentation" section.\<newline>'' @
     ''- Use clean Markdown tables for API documentation or Config options.\<newline>'' @
     ''- Ensure any code blocks are accurately syntax-highlighted.\<newline>'' @
     ''- NEVER include meta-talk like "Here is your readme". ONLY output the raw markdown.'')\<close>

fun styleAdditions :: "style \<Rightarrow> jsstring" where
  "styleAdditions minimal =
     js ''\<newline>- Keep it concise: 5-7 sections max, focus on Quick Start.''"
| "styleAdditions standard =
     js ''\<newline>- Balance detail with readability: Include all essential sections.''"
| "styleAdditions enterprise =
     js ''\<newline>- Maximum detail: Architecture diagrams, security policies, CI/CD, deployment guides, monitoring setup.''"

definition architectureClause :: jsstring where
  "architectureClause =
     js ''\<newline>- MUST include a Mermaid architecture diagram showing system components.''"

definition securityClause :: jsstring where
  "securityClause =
     js ''\<newline>- MUST include a Security section with vulnerability reporting and best practices.''"

definition contributingClause :: jsstring where
  "contributingClause =
     js ''\<newline>- MUST include detailed Contributing guidelines with PR process and code standards.''"

text \<open>
  \<open>buildSystemPrompt\<close>: the prompt starts as base prompt plus style addition
  (\<open>config.style || 'standard'\<close>) and each \<open>if\<close> appends to it in turn.
\<close>

definition buildSystemPrompt :: "ReadmeConfig \<Rightarrow> jsstring" where
  "buildSystemPrompt config =
     (let enhancedPrompt =
            basePrompt @ styleAdditions (case style config of None \<Rightarrow> standard | Some s \<Rightarrow> s);
          enhancedPrompt =
            (if truthy_flag (includeArchitecture config)
             then enhancedPrompt @ architectureClause else enhancedPrompt);
          enhancedPrompt =
            (if truthy_flag (includeSecurity config)
             then enhancedPrompt @ securityClause else enhancedPrompt);
          enhancedPrompt =
            (if truthy_flag (includeContributing config)
             then enhancedPrompt @ contributingClause else enhancedPrompt)
      in enhancedPrompt)"

section \<open>Output validation\<close>

record ValidationResult =
  valid :: bool
  errors :: "jsstring list"

text \<open>\<open>/^#{1,3}\s+.+$/gm\<close>\<close>

definition headerFlags :: flags where
  "headerFlags = \<lparr>ignoreCase = False, global = True, multiline = True\<rparr>"

definition headerRe :: regex where
  "headerRe =
     Seq Bol (Seq (Rep (AChar 0x23) 1 (Some 3)) (Seq (Rep ASpace 1 None) (Seq (Rep ADot 1 None) Eol)))"

text \<open>\<open>/```/g\<close>\<close>

definition fenceFlags :: flags where
  "fenceFlags = \<lparr>ignoreCase = False, global = True, multiline = False\<rparr>"

definition fenceRe :: regex where
  "fenceRe = lit (js ''```'')"

text \<open>\<open>/here is|i have generated|i've created|below is/gi\<close>\<close>

definition metaFlags :: flags where
  "metaFlags = \<lparr>ignoreCase = True, global = True, multiline = False\<rparr>"

definition metaCommentary :: regex where
  "metaCommentary =
     Alt (lit (js ''here is''))
      (Alt (lit (js ''i have generated''))
        (Alt (lit (js [CHR ''i'', CHR 0x27, CHR ''v'', CHR ''e'', CHR '' '', CHR ''c'', CHR ''r'',
                       CHR ''e'', CHR ''a'', CHR ''t'', CHR ''e'', CHR ''d'']))
             (lit (js ''below is''))))"

definition validateReadmeOutput :: "jsstring \<Rightarrow> ValidationResult" where
  "validateReadmeOutput markdown =
     (let errors = [];
          errors =
            (if length markdown < 200
             then errors @ [js ''README is too short (less than 200 characters)''] else errors);
          headerMatches = match_g headerFlags headerRe markdown;
          errors =
            (if (case headerMatches of None \<Rightarrow> True | Some ms \<Rightarrow> length ms < 2)
             then errors @ [js ''Missing essential section headers''] else errors);
          codeBlockCount =
            length (case match_g fenceFlags fenceRe markdown of None \<Rightarrow> [] | Some ms \<Rightarrow> ms);
          errors =
            (if codeBlockCount mod 2 \<noteq> 0
             then errors @ [js ''Unclosed code block detected''] else errors);
          errors =
            (if test metaFlags metaCommentary (slice0 markdown 500)
             then errors @ [js ''AI meta-commentary detected in output''] else errors)
      in \<lparr>valid = (length errors = 0), errors = errors\<rparr>)"

section \<open>Cleanup of the generated text\<close>

text \<open>
  The cleanup of both generators:
  \<open>.replace(/^```markdown\n/i, '').replace(/^```\n/i, '').replace(/\n```$/i, '').trim()\<close>.
  Without the \<open>m\<close> flag \<open>^\<close> is the start and \<open>$\<close> the end of the whole string.
\<close>

definition cleanupFlags :: flags where
  "cleanupFlags = \<lparr>ignoreCase = True, global = False, multiline = False\<rparr>"

definition cleanup :: "jsstring \<Rightarrow> jsstring" where
  "cleanup s =
     trim
       (replace_empty cleanupFlags (Seq (lit (js ''\<newline>```'')) Eol)
         (replace_empty cleanupFlags (Seq Bol (lit (js ''```\<newline>'')))
           (replace_empty cleanupFlags (Seq Bol (lit (js ''```markdown\<newline>''))) s)))"

section \<open>Binary64 arithmetic\<close>

text \<open>
  JavaScript numbers are binary64 values, and every arithmetic operation gives the binary64
  value nearest to the exact result, ties going to the even significand. \<open>round64\<close> is that
  rounding on the reals: the significand has 53 bits and the exponent does not go below
  -1022 (gradual underflow). A result beyond the largest finite number (which JavaScript
  gives as \<open>Infinity\<close>) is not modelled: the properties of the scheduler are stated for
  parameters with which no operation of the delay computation reaches \<open>2^1024\<close>.
\<close>

definition roundHalfEven :: "real \<Rightarrow> int" where
  "roundHalfEven q =
     (let n = \<lfloor>q\<rfloor>; f = q - of_int n
      in if f < 1 / 2 then n else if 1 / 2 < f then n + 1 else if even n then n else n + 1)"

definition exponent64 :: "real \<Rightarrow> int" where
  "exponent64 x = max \<lfloor>log 2 x\<rfloor> (- 1022)"

definition ulp64 :: "real \<Rightarrow> real" where
  "ulp64 x = 2 powr (of_int (exponent64 x) - 52)"

definition round64 :: "real \<Rightarrow> real" where
  "round64 x =
     (if x = 0 then 0
      else if x < 0 then - (of_int (roundHalfEven (- x / ulp64 (- x))) * ulp64 (- x))
      else of_int (roundHalfEven (x / ulp64 x)) * ulp64 x)"

text \<open>The literal \<open>0.3\<close> of the source: the binary64 value nearest to 3/10.\<close>

definition c03 :: real where
  "c03 = round64 (3 / 10)"

section \<open>Retry with exponential backoff\<close>

text \<open>
  What the scheduler touches besides the operation: \<open>Math.random\<close> (the value of its
  \<open>n\<close>-th call, and how many calls were made), the delays handed to \<open>setTimeout\<close> in order,
  and its \<open>console.warn\<close> lines (attempt + 1, maxRetries, the rounded delay). What the timer
  does with a delay is not modelled.
\<close>

record scheduler =
  random :: "nat \<Rightarrow> real"
  draws :: nat
  sleeps :: "real list"
  retryWarnings :: "(nat \<times> int \<times> int) list"

text \<open>
  The delay of one retry, given the value \<open>Math.random()\<close> returned: the three lines that
  compute \<open>exponentialDelay\<close>, \<open>jitter\<close> and \<open>totalDelay\<close>. \<open>Math.pow(2, attempt)\<close> is exact
  (up to \<open>attempt = 1023\<close>);
  the product, the two products of the jitter and the sum are each rounded.
\<close>

definition delayFor :: "real \<Rightarrow> nat \<Rightarrow> real \<Rightarrow> real" where
  "delayFor baseDelay attempt r =
     (let exponentialDelay = round64 (baseDelay * 2 ^ attempt);
          jitter = round64 (round64 (r * exponentialDelay) * c03);
          totalDelay = round64 (exponentialDelay + jitter)
      in totalDelay)"

text \<open>
  The \<open>while (true)\<close> loop of \<open>withExponentialBackoff\<close>. The operation is a closure over a
  state of its own; it throws (\<open>Inl\<close>) or returns (\<open>Inr\<close>). \<open>Math.round\<close> is exact.
\<close>

function backoff_loop ::
  "('s \<Rightarrow> ('e + 'a) \<times> 's) \<Rightarrow> int \<Rightarrow> real \<Rightarrow> nat \<Rightarrow> scheduler \<Rightarrow> 's
     \<Rightarrow> ('e + 'a) \<times> scheduler \<times> 's" where
  "backoff_loop operation maxRetries baseDelay attempt sc s =
     (case operation s of
        (Inr v, s') \<Rightarrow> (Inr v, sc, s')
      | (Inl error, s') \<Rightarrow>
          if int attempt \<ge> maxRetries then (Inl error, sc, s')
          else
            let totalDelay = delayFor baseDelay attempt (random sc (draws sc));
                sc' = sc\<lparr>draws := Suc (draws sc),
                         retryWarnings := retryWarnings sc @
                           [(attempt + 1, maxRetries, \<lfloor>totalDelay + 1 / 2\<rfloor>)],
                         sleeps := sleeps sc @ [totalDelay]\<rparr>
            in backoff_loop operation maxRetries baseDelay (Suc attempt) sc' s')"
  by pat_completeness auto
termination
  by (relation "measure (\<lambda>(operation, maxRetries, baseDelay, attempt, sc, s).
                           nat (maxRetries - int attempt))") auto

declare backoff_loop.simps [simp del]

definition withExponentialBackoff ::
  "('s \<Rightarrow> ('e + 'a) \<times> 's) \<Rightarrow> int \<Rightarrow> real \<Rightarrow> scheduler \<Rightarrow> 's \<Rightarrow> ('e + 'a) \<times> scheduler \<times> 's" where
  "withExponentialBackoff operation maxRetries baseDelay sc s =
     backoff_loop operation maxRetries baseDelay 0 sc s"

section \<open>The provider and its payloads\<close>

text \<open>
  One fragment of a streamed response: a string, another value (with the text its
  \<open>toString()\<close> gives), or \<open>null\<close>/\<open>undefined\<close>, on which \<open>toString\<close> cannot be called.
\<close>

datatype chunk = ChunkString jsstring | ChunkOther jsstring | ChunkNullish

text \<open>
  What \<open>model.run\<close> resolves to: an async iterable (its fragments, and the error it throws
  after them if it does not complete), or a plain value.
\<close>

datatype response = AsyncIterable "chunk list" "raw_error option" | Plain json

datatype outcome = Resolves response | Rejects raw_error

record run_options =
  stream :: bool
  temperature_sent :: real

record provider_call =
  apiKey :: jsstring
  modelName :: jsstring
  systemContent :: jsstring
  userContent :: jsstring
  options :: "run_options option"

text \<open>
  The console lines of the generators and of the orchestrator: the validation warnings of the
  streaming generator with the errors found, and the two lines of the fallback loop with the
  model they name. (The scheduler keeps its own warnings.)
\<close>

datatype console_line =
    ValidationWarnings "jsstring list"
  | Attempting jsstring
  | FailedTryingNext jsstring

text \<open>
  The world outside the module: the two environment variables, the provider (what its
  \<open>n\<close>-th call does, given the call), the calls made so far, \<open>JSON.stringify\<close>, the message text
  the engine gives a \<open>TypeError\<close>, the console, and the arguments \<open>onChunk\<close> was called with.
\<close>

record world =
  BYTEZ_API_KEY :: "jsstring option"
  OPENAI_API_KEY :: "jsstring option"
  provider :: "nat \<Rightarrow> provider_call \<Rightarrow> outcome"
  calls :: "provider_call list"
  JSON_stringify :: "json \<Rightarrow> jsstring"
  typeErrorMessage :: jsstring
  console :: "console_line list"
  delivered :: "json list"

text \<open>
  \<open>process.env.BYTEZ_API_KEY || process.env.OPENAI_API_KEY\<close>, with \<open>None\<close> where
  \<open>!BYTEZ_KEY\<close> holds: a variable that is not set, or set to the empty string, is falsy.
\<close>

definition nonEmpty :: "jsstring option \<Rightarrow> jsstring option" where
  "nonEmpty v = (case v of None \<Rightarrow> None | Some k \<Rightarrow> if k \<noteq> [] then Some k else None)"

definition BYTEZ_KEY :: "world \<Rightarrow> jsstring option" where
  "BYTEZ_KEY w =
     (case nonEmpty (BYTEZ_API_KEY w) of
        Some k \<Rightarrow> Some k
      | None \<Rightarrow> nonEmpty (OPENAI_API_KEY w))"

definition typeError :: "world \<Rightarrow> raw_error" where
  "typeError w = \<lparr>message = Some (typeErrorMessage w), errcode = None\<rparr>"

text \<open>
  \<open>await model.run(...)\<close>: the call is recorded and the provider answers. Creating the client
  (\<open>new Bytez(key)\<close>) and selecting the model (\<open>sdk.model(name)\<close>) are taken not to throw.
\<close>

definition run :: "provider_call \<Rightarrow> world \<Rightarrow> outcome \<times> world" where
  "run c w = (provider w (length (calls w)) c, w\<lparr>calls := calls w @ [c]\<rparr>)"

text \<open>\<open>config.model || "openai/gpt-4o"\<close>\<close>

definition modelNameOf :: "ReadmeConfig \<Rightarrow> jsstring" where
  "modelNameOf config =
     (case model config of
        Some m \<Rightarrow> if m \<noteq> [] then m else js ''openai/gpt-4o''
      | None \<Rightarrow> js ''openai/gpt-4o'')"

definition userMessage :: "jsstring \<Rightarrow> jsstring" where
  "userMessage prompt =
     js ''Analyze the following project data and build a high-conversion, professional README:\<newline>''
       @ prompt"

section \<open>Streaming generator\<close>

text \<open>\<open>typeof chunk === 'string' ? chunk : chunk.toString()\<close>; \<open>None\<close> where it throws.\<close>

fun chunk_text :: "chunk \<Rightarrow> jsstring option" where
  "chunk_text (ChunkString s) = Some s"
| "chunk_text (ChunkOther s) = Some s"
| "chunk_text ChunkNullish = None"

text \<open>
  The callback \<open>onChunk\<close> is optional; when called it returns (\<open>None\<close>) or throws. Each
  call is recorded in \<open>delivered\<close>.
\<close>

type_synonym callback = "(json \<Rightarrow> raw_error option) option"

definition callOnChunk :: "callback \<Rightarrow> json \<Rightarrow> world \<Rightarrow> raw_error option \<times> world" where
  "callOnChunk onChunk v w =
     (case onChunk of
        None \<Rightarrow> (None, w)
      | Some f \<Rightarrow> (f v, w\<lparr>delivered := delivered w @ [v]\<rparr>))"

text \<open>The \<open>for await\<close> loop over the fragments, with \<open>fullMarkdown\<close> as accumulator.\<close>

fun consume ::
  "chunk list \<Rightarrow> raw_error option \<Rightarrow> callback \<Rightarrow> jsstring \<Rightarrow> world \<Rightarrow> (raw_error + jsstring) \<times> world" where
  "consume [] None onChunk fullMarkdown w = (Inr fullMarkdown, w)"
| "consume [] (Some e) onChunk fullMarkdown w = (Inl e, w)"
| "consume (c # cs) fin onChunk fullMarkdown w =
     (case chunk_text c of
        None \<Rightarrow> (Inl (typeError w), w)
      | Some text \<Rightarrow>
          (case callOnChunk onChunk (JString text) w of
             (Some e, w') \<Rightarrow> (Inl e, w')
           | (None, w') \<Rightarrow> consume cs fin onChunk (fullMarkdown @ text) w'))"

text \<open>
  The three branches on the shape of the response; \<open>fullMarkdown\<close> stays \<open>""\<close> when none
  applies. In the third branch \<open>fullMarkdown\<close> is whatever \<open>content\<close> holds.
\<close>

definition collect :: "response \<Rightarrow> callback \<Rightarrow> world \<Rightarrow> (raw_error + json) \<times> world" where
  "collect response onChunk w =
     (case response of
        AsyncIterable cs fin \<Rightarrow>
          (case consume cs fin onChunk [] w of
             (Inl e, w') \<Rightarrow> (Inl e, w')
           | (Inr fullMarkdown, w') \<Rightarrow> (Inr (JString fullMarkdown), w'))
      | Plain (JString s) \<Rightarrow>
          (case callOnChunk onChunk (JString s) w of
             (Some e, w') \<Rightarrow> (Inl e, w')
           | (None, w') \<Rightarrow> (Inr (JString s), w'))
      | Plain (JObject kvs) \<Rightarrow>
          (case map_of kvs (js ''content'') of
             None \<Rightarrow> (Inr (JString []), w)
           | Some fullMarkdown \<Rightarrow>
               (case callOnChunk onChunk fullMarkdown w of
                  (Some e, w') \<Rightarrow> (Inl e, w')
                | (None, w') \<Rightarrow> (Inr fullMarkdown, w')))
      | Plain v \<Rightarrow> (Inr (JString []), w))"

text \<open>The arguments of the streaming \<open>model.run\<close>; \<open>config.temperature || 0.7\<close>.\<close>

definition streamingCall :: "jsstring \<Rightarrow> jsstring \<Rightarrow> ReadmeConfig \<Rightarrow> provider_call" where
  "streamingCall key prompt config =
     \<lparr>apiKey = key, modelName = modelNameOf config,
      systemContent = buildSystemPrompt config, userContent = userMessage prompt,
      options = Some \<lparr>stream = True,
                       temperature_sent =
                         (case temperature config of
                            None \<Rightarrow> 0.7
                          | Some t \<Rightarrow> if t \<noteq> 0 then t else 0.7)\<rparr>\<rparr>"

text \<open>The body of the \<open>try\<close> block; \<open>.replace\<close> exists on a string only.\<close>

definition streamingBody ::
  "jsstring \<Rightarrow> jsstring \<Rightarrow> ReadmeConfig \<Rightarrow> callback \<Rightarrow> world \<Rightarrow> (raw_error + jsstring) \<times> world" where
  "streamingBody key prompt config onChunk w =
     (case run (streamingCall key prompt config) w of
        (Rejects e, w1) \<Rightarrow> (Inl e, w1)
      | (Resolves response, w1) \<Rightarrow>
          (case collect response onChunk w1 of
             (Inl e, w2) \<Rightarrow> (Inl e, w2)
           | (Inr (JString fullMarkdown), w2) \<Rightarrow>
               (let fullMarkdown = cleanup fullMarkdown;
                    validation = validateReadmeOutput fullMarkdown;
                    w3 = (if \<not> valid validation
                          then w2\<lparr>console := console w2 @ [ValidationWarnings (errors validation)]\<rparr>
                          else w2)
                in (Inr fullMarkdown, w3))
           | (Inr v, w2) \<Rightarrow> (Inl (typeError w2), w2)))"

text \<open>The \<open>catch\<close> block: the classification of whatever the body threw.\<close>

definition message_includes :: "raw_error \<Rightarrow> jsstring \<Rightarrow> bool" where
  "message_includes err t = (case message err of None \<Rightarrow> False | Some m \<Rightarrow> includes_str m t)"

definition classify :: "raw_error \<Rightarrow> thrown" where
  "classify err =
     (if message_includes err (js ''rate limit'')
      then ReadmeGenerationError (js ''API rate limit exceeded. Please try again later.'')
             RATE_LIMIT True (Some (Inl err))
      else if message_includes err (js ''authentication'') \<or> message_includes err (js ''API key'')
      then ReadmeGenerationError (js ''Invalid API key or authentication failed'')
             AUTH_ERROR False (Some (Inl err))
      else if message_includes err (js ''network'') \<or> errcode err = Some (js ''ECONNREFUSED'')
      then ReadmeGenerationError (js ''Network error occurred. Check your connection.'')
             NETWORK_ERROR True (Some (Inl err))
      else ReadmeGenerationError
             (js ''README generation failed: ''
                @ (case message err of None \<Rightarrow> js ''undefined'' | Some m \<Rightarrow> m))
             UNKNOWN False (Some (Inl err)))"

definition missingKey :: thrown where
  "missingKey =
     ReadmeGenerationError (js ''Missing BYTEZ_API_KEY in environment variables'')
       AUTH_ERROR False None"

definition generateReadmeStreaming ::
  "jsstring \<Rightarrow> ReadmeConfig \<Rightarrow> callback \<Rightarrow> world \<Rightarrow> (thrown + jsstring) \<times> world" where
  "generateReadmeStreaming prompt config onChunk w =
     (case BYTEZ_KEY w of
        None \<Rightarrow> (Inl missingKey, w)
      | Some key \<Rightarrow>
          (case streamingBody key prompt config onChunk w of
             (Inr fullMarkdown, w') \<Rightarrow> (Inr fullMarkdown, w')
           | (Inl err, w') \<Rightarrow> (Inl (classify err), w')))"

section \<open>Non-streaming generator\<close>

text \<open>
  The "robust output parsing" of \<open>generateReadme\<close>: what \<open>finalMarkdown\<close> holds after the
  \<open>if\<close> cascade, given \<open>output\<close>.
\<close>

definition parseOutput :: "(json \<Rightarrow> jsstring) \<Rightarrow> json \<Rightarrow> json" where
  "parseOutput stringify output =
     (let finalMarkdown = JString [] in
      case output of
        JString s \<Rightarrow> JString s
      | _ \<Rightarrow>
         if truthy output \<and> typeof_object output then
           if truthy (getProp output (js ''content'')) then getProp output (js ''content'')
           else if truthy (opt_prop (opt_prop (opt_index0 (getProp output (js ''choices'')))
                                       (js ''message'')) (js ''content''))
           then getProp (getProp (index0 (getProp output (js ''choices''))) (js ''message''))
                  (js ''content'')
           else JString (stringify output)
         else finalMarkdown)"

text \<open>
  The closure handed to \<open>withExponentialBackoff\<close>. Its \<open>model.run\<close> has no options.
  Destructuring \<open>{ error, output }\<close> throws on \<open>null\<close> and \<open>undefined\<close> and reads two
  properties of anything else.
\<close>

definition response_value :: "response \<Rightarrow> json" where
  "response_value r = (case r of AsyncIterable cs fin \<Rightarrow> JObject [] | Plain v \<Rightarrow> v)"

definition plainCall :: "jsstring \<Rightarrow> jsstring \<Rightarrow> ReadmeConfig \<Rightarrow> provider_call" where
  "plainCall key prompt config =
     \<lparr>apiKey = key, modelName = modelNameOf config,
      systemContent = buildSystemPrompt config, userContent = userMessage prompt,
      options = None\<rparr>"

definition generateOnce :: "jsstring \<Rightarrow> ReadmeConfig \<Rightarrow> world \<Rightarrow> (thrown + jsstring) \<times> world" where
  "generateOnce prompt config w =
     (case BYTEZ_KEY w of
        None \<Rightarrow> (Inl missingKey, w)
      | Some key \<Rightarrow>
          (case run (plainCall key prompt config) w of
             (Rejects e, w1) \<Rightarrow> (Inl (Raw e), w1)
           | (Resolves response, w1) \<Rightarrow>
               (let r = response_value response in
                if nullish r then (Inl (Raw (typeError w1)), w1)
                else
                  let error = getProp r (js ''error''); output = getProp r (js ''output'') in
                  if truthy error
                  then (Inl (ReadmeGenerationError
                               (js ''Bytez API Error: '' @ JSON_stringify w1 error)
                               UNKNOWN True (Some (Inr error))), w1)
                  else
                    (case parseOutput (JSON_stringify w1) output of
                       JString finalMarkdown \<Rightarrow>
                         (let finalMarkdown = cleanup finalMarkdown;
                              validation = validateReadmeOutput finalMarkdown
                          in if \<not> valid validation
                             then (Inl (ReadmeGenerationError
                                          (js ''Generated README failed validation: ''
                                             @ join (errors validation) (js '', ''))
                                          INVALID_OUTPUT True None), w1)
                             else (Inr finalMarkdown, w1))
                     | v \<Rightarrow> (Inl (Raw (typeError w1)), w1)))))"

text \<open>\<open>generateReadme\<close>: the closure under three retries with a base delay of 1000 ms.\<close>

definition generateReadme ::
  "jsstring \<Rightarrow> ReadmeConfig \<Rightarrow> scheduler \<Rightarrow> world \<Rightarrow> (thrown + jsstring) \<times> scheduler \<times> world" where
  "generateReadme prompt config sc w =
     withExponentialBackoff (generateOnce prompt config) 3 1000 sc w"

section \<open>Multi-model fallback\<close>

record FallbackResult =
  markdown :: jsstring
  modelUsed :: jsstring

definition models :: "jsstring list" where
  "models = [js ''openai/gpt-4o'', js ''openai/gpt-4-turbo'',
             js ''anthropic/claude-3-5-sonnet-20241022'', js ''openai/gpt-3.5-turbo'']"

text \<open>\<open>model === models[models.length - 1]\<close>: a comparison of the two strings.\<close>

definition isLastModel :: "jsstring list \<Rightarrow> jsstring \<Rightarrow> bool" where
  "isLastModel ms m = (ms \<noteq> [] \<and> m = last ms)"

text \<open>
  The \<open>for\<close> loop over the candidates still to try (second argument) of the list \<open>ms\<close>, and
  the \<open>throw\<close> behind it.
\<close>

fun fallback_loop ::
  "jsstring list \<Rightarrow> jsstring list \<Rightarrow> jsstring \<Rightarrow> ReadmeConfig \<Rightarrow> scheduler \<Rightarrow> world
     \<Rightarrow> (thrown + FallbackResult) \<times> scheduler \<times> world" where
  "fallback_loop ms [] prompt config sc w =
     (Inl (ReadmeGenerationError (js ''All fallback models failed'') UNKNOWN False None), sc, w)"
| "fallback_loop ms (m # rest) prompt config sc w =
     (case generateReadme prompt (config\<lparr>model := Some m\<rparr>) sc
             (w\<lparr>console := console w @ [Attempting m]\<rparr>) of
        (Inr md, sc', w') \<Rightarrow> (Inr \<lparr>markdown = md, modelUsed = m\<rparr>, sc', w')
      | (Inl err, sc', w') \<Rightarrow>
          if \<not> retryable err \<or> isLastModel ms m then (Inl err, sc', w')
          else fallback_loop ms rest prompt config sc'
                 (w'\<lparr>console := console w' @ [FailedTryingNext m]\<rparr>))"

text \<open>\<open>generateReadmeWithFallback\<close>: the loop over the list of the source.\<close>

definition generateReadmeWithFallback ::
  "jsstring \<Rightarrow> ReadmeConfig \<Rightarrow> scheduler \<Rightarrow> world \<Rightarrow> (thrown + FallbackResult) \<times> scheduler \<times> world" where
  "generateReadmeWithFallback prompt config sc w = fallback_loop models models prompt config sc w"

section \<open>Reference definitions\<close>


text \<open>
  The heading check as the specification words it, line by line: a line counts when it
  starts with one to three \<open>#\<close>, followed by whitespace, followed by at least one more
  character. Lines are separated by the line terminators.
\<close>

fun spec_lines :: "jsstring \<Rightarrow> jsstring \<Rightarrow> jsstring list" where
  "spec_lines line [] = [line]"
| "spec_lines line (c # cs) =
     (if isLineTerminator c then line # spec_lines [] cs else spec_lines (line @ [c]) cs)"

definition spec_heading_line :: "jsstring \<Rightarrow> bool" where
  "spec_heading_line l =
     (let h = length (takeWhile (\<lambda>c. c = 0x23) l) in
      1 \<le> h \<and> h \<le> 3 \<and>
      (case drop h l of c # t # ts \<Rightarrow> isWhiteSpace c | _ \<Rightarrow> False))"

definition spec_heading_lines :: "jsstring \<Rightarrow> jsstring list" where
  "spec_heading_lines s = filter spec_heading_line (spec_lines [] s)"















section \<open>Example inputs\<close>

text \<open>A scheduler at rest whose \<open>Math.random\<close> always gives 0, and an empty configuration.\<close>

definition scheduler0 :: scheduler where
  "scheduler0 = \<lparr>random = (\<lambda>n. 0), draws = 0, sleeps = [], retryWarnings = []\<rparr>"



definition config0 :: ReadmeConfig where
  "config0 = \<lparr>style = None, includeArchitecture = None, includeSecurity = None,
              includeContributing = None, model = None, temperature = None, streaming = None\<rparr>"

text \<open>\<open>JSON.stringify\<close> on the payloads of the examples; no example serializes another value.\<close>

definition stringify0 :: "json \<Rightarrow> jsstring" where
  \<open>stringify0 v =
     (if v = JNull then js ''null''
      else if v = JString (js ''overloaded'') then js ''"overloaded"''
      else if v = JObject [(js ''content'', JString [])] then js ''{"content":""}''
      else js ''{}'')\<close>

text \<open>A world with the given \<open>BYTEZ_API_KEY\<close> and provider, before any call.\<close>

definition world0 :: "jsstring option \<Rightarrow> (nat \<Rightarrow> provider_call \<Rightarrow> outcome) \<Rightarrow> world" where
  "world0 key p =
     \<lparr>BYTEZ_API_KEY = key, OPENAI_API_KEY = None, provider = p, calls = [],
      JSON_stringify = stringify0, typeErrorMessage = js ''TypeError'', console = [],
      delivered = []\<rparr>"


text \<open>
  Providers: one whose every call fails with a network exception, one that reports an error
  in its payload, one that answers with a one-letter document, and one whose fifth answer
  is a well-formed document.
\<close>

definition networkDown :: "nat \<Rightarrow> provider_call \<Rightarrow> outcome" where
  "networkDown n c = Rejects \<lparr>message = Some (js ''network timeout''), errcode = None\<rparr>"

definition reportsError :: "nat \<Rightarrow> provider_call \<Rightarrow> outcome" where
  "reportsError n c = Resolves (Plain (JObject [(js ''error'', JString (js ''overloaded''))]))"

definition answersX :: "nat \<Rightarrow> provider_call \<Rightarrow> outcome" where
  "answersX n c = Resolves (Plain (JObject [(js ''output'', JString (js ''x''))]))"

definition goodDocument :: jsstring where
  "goodDocument = js
     (''# Sample\<newline>\<newline>'' @
      ''A small tool that reads a repository and drafts its documentation from the file tree and the package manifest.\<newline>\<newline>'' @
      ''## Usage\<newline>\<newline>'' @
      ''Run the generator in the project root, review the draft and commit the README that it writes.'')"

definition fifthAnswerGood :: "nat \<Rightarrow> provider_call \<Rightarrow> outcome" where
  "fifthAnswerGood n c =
     (if n < 4 then answersX n c
      else Resolves (Plain (JObject [(js ''output'', JString goodDocument)])))"

text \<open>A document of 231 code units whose only \<open>#\<close> stand alone on their lines.\<close>

definition loneHashes :: jsstring where
  "loneHashes = js
     (''#\<newline>Overview\<newline>#\<newline>Usage\<newline>'' @
      ''This tool reads a repository and drafts its documentation. It collects the file tree, '' @
      ''the package manifest and the languages, asks a model for each section, and writes the '' @
      ''result to README.md in the project root.'')"






section \<open>Auxiliary facts\<close>

text \<open>Distinct ASCII literals are distinct strings.\<close>

lemma of_char_word_inject: "(of_char c :: 16 word) = of_char d \<longleftrightarrow> c = d"
proof
  assume eq: "(of_char c :: 16 word) = of_char d"
  have u: "\<And>x. unat (of_char x :: 16 word) = of_char x"
  proof -
    fix x :: char
    have "unat (of_nat (of_char x) :: 16 word) = of_char x mod 2 ^ LENGTH(16)"
      by (rule unat_of_nat)
    moreover have "(of_char x :: nat) < 256" by simp
    ultimately show "unat (of_char x :: 16 word) = of_char x"
      by (simp add: of_nat_of_char)
  qed
  from eq have "unat (of_char c :: 16 word) = unat (of_char d :: 16 word)" by simp
  then have "(of_char c :: nat) = of_char d" by (simp only: u)
  then show "c = d" by simp
qed simp

lemma js_inject: "js a = js b \<longleftrightarrow> a = b"
proof -
  have "inj (of_char :: char \<Rightarrow> 16 word)"
    by (rule injI) (simp add: of_char_word_inject)
  then show ?thesis
    unfolding js_def by (rule inj_map_eq_map)
qed

lemma js_Nil: "js s = [] \<longleftrightarrow> s = []"
  by (simp add: js_def)

lemma replicate4: "replicate 4 x = [x, x, x, x]"
  by (simp add: numeral_eq_Suc)

lemma key_present: "BYTEZ_KEY (world0 (Some (js ''key'')) p) = Some (js ''key'')"
  by (simp add: BYTEZ_KEY_def nonEmpty_def world0_def js_Nil)

section \<open>Properties of the rounding\<close>

text \<open>
  Rounding keeps integers, is monotone on the non-negative reals, keeps a binary64 number
  that is multiplied by a power of two, and can be evaluated once the binade is known.
\<close>

lemma roundHalfEven_of_int: "roundHalfEven (of_int k) = k"
  by (simp add: roundHalfEven_def)



lemma ulp64_pos: "0 < ulp64 x"
  by (simp add: ulp64_def)




lemma round64_pos_eq: "0 < x \<Longrightarrow> round64 x = of_int (roundHalfEven (x / ulp64 x)) * ulp64 x"
  by (simp add: round64_def)





lemma round64_multiple:
  assumes "0 < x" and "x / ulp64 x = of_int m"
  shows "round64 x = x"
proof -
  from assms(2) have "roundHalfEven (x / ulp64 x) = m" by (simp add: roundHalfEven_of_int)
  moreover from assms(2) have "x = of_int m * ulp64 x"
    using ulp64_pos [of x] by (simp add: field_simps)
  ultimately show ?thesis using assms(1) by (simp add: round64_pos_eq)
qed

lemma powr2_int: "0 \<le> d \<Longrightarrow> (2::real) powr (of_int d) = of_int (2 ^ nat d)"
  by (simp add: powr_real_of_int)

lemma exponent64_scale:
  assumes "0 < x"
  shows "exponent64 (x * 2 ^ n) = max (\<lfloor>log 2 x\<rfloor> + int n) (- 1022)"
proof -
  from assms have "log 2 (x * 2 ^ n) = log 2 x + of_int (int n)"
    by (simp add: log_mult)
  then have "\<lfloor>log 2 (x * 2 ^ n)\<rfloor> = \<lfloor>log 2 x\<rfloor> + int n"
    by (simp only: floor_add_int)
  then show ?thesis by (simp add: exponent64_def)
qed

lemma round64_scale:
  assumes x: "0 < x" and rep: "round64 x = x"
  shows "round64 (x * 2 ^ n) = x * 2 ^ n"
proof -
  define k where "k = roundHalfEven (x / ulp64 x)"
  from x rep have xk: "x = of_int k * ulp64 x" by (simp add: round64_pos_eq k_def)
  define d where "d = exponent64 x + int n - exponent64 (x * 2 ^ n)"
  have d0: "0 \<le> d"
    unfolding d_def exponent64_scale [OF x] by (simp add: exponent64_def)
  have "ulp64 x * 2 ^ n = 2 powr (of_int (exponent64 x) - 52) * 2 powr (of_int (int n))"
    by (simp add: ulp64_def powr_realpow)
  also have "\<dots> = 2 powr ((of_int (exponent64 x) - 52) + of_int (int n))"
    by (simp only: powr_add)
  also have "\<dots> = 2 powr (of_int d + (of_int (exponent64 (x * 2 ^ n)) - 52))"
    by (rule arg_cong [where f = "(powr) 2"]) (simp add: d_def)
  also have "\<dots> = 2 powr (of_int d) * ulp64 (x * 2 ^ n)"
    unfolding ulp64_def by (simp only: powr_add)
  finally have u: "ulp64 x * 2 ^ n = of_int (2 ^ nat d) * ulp64 (x * 2 ^ n)"
    using powr2_int [OF d0] by simp
  have "x * 2 ^ n = of_int k * (ulp64 x * 2 ^ n)" using xk by (metis mult.assoc)
  also have "\<dots> = of_int (k * 2 ^ nat d) * ulp64 (x * 2 ^ n)" by (simp add: u)
  finally have "x * 2 ^ n / ulp64 (x * 2 ^ n) = of_int (k * 2 ^ nat d)"
    using ulp64_pos [of "x * 2 ^ n"] by (simp add: field_simps)
  moreover from x have "0 < x * 2 ^ n" by simp
  ultimately show ?thesis by (rule round64_multiple [rotated])
qed


lemma round64_of_nat:
  assumes "k < 2 ^ 53"
  shows "round64 (real k) = real k"
proof (cases "k = 0")
  case True
  then show ?thesis by (simp add: round64_def)
next
  case False
  then have pos: "0 < real k" by simp
  define e where "e = \<lfloor>log 2 (real k)\<rfloor>"
  from pos have b: "2 powr (of_int e) \<le> real k" "real k < 2 powr (of_int e + 1)"
    using floor_log_eq_powr_iff [of "real k" 2 e] by (simp_all add: e_def)
  from False have "1 \<le> real k" by simp
  then have "0 \<le> log 2 (real k)" by simp
  then have e0: "0 \<le> e" by (simp add: e_def)
  have "2 powr (of_int e) \<le> real k" by (rule b(1))
  also have "\<dots> < 2 powr 53" using assms
    by (metis of_nat_less_iff of_nat_numeral of_nat_power powr_numeral zero_le_numeral)
  finally have "2 powr (of_int e) < (2::real) powr (of_int 53)" by simp
  then have "e < 53" by (simp only: powr_less_cancel_iff one_less_numeral_iff semiring_norm of_int_less_iff)
  then have e52: "e \<le> 52" by simp
  from e0 have ex: "exponent64 (real k) = e" by (simp add: exponent64_def e_def)
  have "real k / ulp64 (real k) = real k * 2 powr (of_int (52 - e))"
    by (simp add: ulp64_def ex powr_diff)
  also have "\<dots> = of_int (int k * 2 ^ nat (52 - e))"
    using e52 powr2_int [of "52 - e"] by simp
  finally show ?thesis using pos by (rule round64_multiple [rotated])
qed

lemma round64_numeral: "numeral n < (2::nat) ^ 53 \<Longrightarrow> round64 (numeral n) = numeral n"
  using round64_of_nat [of "numeral n"] by simp

lemma round64_zero: "round64 0 = 0"
  by (simp add: round64_def)



section \<open>Properties of the prompt builder\<close>

text \<open>
  Claim C9. For every configuration the instruction is the base prompt followed by the style
  clause, then the architecture clause, then the security clause, then the contributing
  clause, each of the last three present exactly when its flag is set. It is determined by
  the style and the three flags alone, so identical configurations give identical
  instructions; and switching one flag on, with the rest of the configuration fixed, inserts
  exactly that flag's clause at its place and changes nothing else.
\<close>

theorem buildSystemPrompt_ordered_clauses:
  "buildSystemPrompt c =
     basePrompt @ styleAdditions (case style c of None \<Rightarrow> standard | Some s \<Rightarrow> s)
       @ (if truthy_flag (includeArchitecture c) then architectureClause else [])
       @ (if truthy_flag (includeSecurity c) then securityClause else [])
       @ (if truthy_flag (includeContributing c) then contributingClause else [])
   \<and> (style c = style c' \<and> includeArchitecture c = includeArchitecture c'
        \<and> includeSecurity c = includeSecurity c' \<and> includeContributing c = includeContributing c'
        \<longrightarrow> buildSystemPrompt c = buildSystemPrompt c')
   \<and> buildSystemPrompt (c\<lparr>includeArchitecture := Some False\<rparr>)
        = (basePrompt @ styleAdditions (case style c of None \<Rightarrow> standard | Some s \<Rightarrow> s))
          @ ((if truthy_flag (includeSecurity c) then securityClause else [])
             @ (if truthy_flag (includeContributing c) then contributingClause else []))
   \<and> buildSystemPrompt (c\<lparr>includeArchitecture := Some True\<rparr>)
        = (basePrompt @ styleAdditions (case style c of None \<Rightarrow> standard | Some s \<Rightarrow> s))
          @ architectureClause
          @ ((if truthy_flag (includeSecurity c) then securityClause else [])
             @ (if truthy_flag (includeContributing c) then contributingClause else []))
   \<and> buildSystemPrompt (c\<lparr>includeSecurity := Some False\<rparr>)
        = (basePrompt @ styleAdditions (case style c of None \<Rightarrow> standard | Some s \<Rightarrow> s)
           @ (if truthy_flag (includeArchitecture c) then architectureClause else []))
          @ (if truthy_flag (includeContributing c) then contributingClause else [])
   \<and> buildSystemPrompt (c\<lparr>includeSecurity := Some True\<rparr>)
        = (basePrompt @ styleAdditions (case style c of None \<Rightarrow> standard | Some s \<Rightarrow> s)
           @ (if truthy_flag (includeArchitecture c) then architectureClause else []))
          @ securityClause
          @ (if truthy_flag (includeContributing c) then contributingClause else [])
   \<and> buildSystemPrompt (c\<lparr>includeContributing := Some False\<rparr>)
        = basePrompt @ styleAdditions (case style c of None \<Rightarrow> standard | Some s \<Rightarrow> s)
          @ (if truthy_flag (includeArchitecture c) then architectureClause else [])
          @ (if truthy_flag (includeSecurity c) then securityClause else [])
   \<and> buildSystemPrompt (c\<lparr>includeContributing := Some True\<rparr>)
        = (basePrompt @ styleAdditions (case style c of None \<Rightarrow> standard | Some s \<Rightarrow> s)
           @ (if truthy_flag (includeArchitecture c) then architectureClause else [])
           @ (if truthy_flag (includeSecurity c) then securityClause else []))
          @ contributingClause"
proof -
  have shape: "\<And>d. buildSystemPrompt d =
     basePrompt @ styleAdditions (case style d of None \<Rightarrow> standard | Some s \<Rightarrow> s)
       @ (if truthy_flag (includeArchitecture d) then architectureClause else [])
       @ (if truthy_flag (includeSecurity d) then securityClause else [])
       @ (if truthy_flag (includeContributing d) then contributingClause else [])"
    by (simp add: buildSystemPrompt_def Let_def)
  have same: "style c = style c' \<and> includeArchitecture c = includeArchitecture c'
        \<and> includeSecurity c = includeSecurity c' \<and> includeContributing c = includeContributing c'
        \<longrightarrow> buildSystemPrompt c = buildSystemPrompt c'"
    by (simp add: shape)
  show ?thesis
    by (intro conjI same) (simp_all add: shape)
qed

theorem buildSystemPrompt_ordered_clauses_witness:
  "style config0 = style (config0\<lparr>temperature := Some 1, model := Some (js ''openai/gpt-4o'')\<rparr>)
   \<and> includeArchitecture config0
        = includeArchitecture (config0\<lparr>temperature := Some 1, model := Some (js ''openai/gpt-4o'')\<rparr>)
   \<and> includeSecurity config0
        = includeSecurity (config0\<lparr>temperature := Some 1, model := Some (js ''openai/gpt-4o'')\<rparr>)
   \<and> includeContributing config0
        = includeContributing (config0\<lparr>temperature := Some 1, model := Some (js ''openai/gpt-4o'')\<rparr>)
   \<and> buildSystemPrompt config0
        = buildSystemPrompt (config0\<lparr>temperature := Some 1, model := Some (js ''openai/gpt-4o'')\<rparr>)"
proof -
  let ?c = "config0\<lparr>temperature := Some 1, model := Some (js ''openai/gpt-4o'')\<rparr>"
  have agree: "style config0 = style ?c \<and> includeArchitecture config0 = includeArchitecture ?c
      \<and> includeSecurity config0 = includeSecurity ?c
      \<and> includeContributing config0 = includeContributing ?c"
    by simp
  with buildSystemPrompt_ordered_clauses [of config0 ?c]
  have "buildSystemPrompt config0 = buildSystemPrompt ?c" by blast
  with agree show ?thesis by blast
qed

section \<open>Properties of the backoff scheduler\<close>






text \<open>Delays without jitter, and the delays for \<open>Math.random() = 1 - 2^-53\<close>.\<close>

lemma delayFor_no_jitter:
  assumes "0 < b" and "round64 b = b"
  shows "delayFor b a 0 = b * 2 ^ a"
  using round64_scale [OF assms, of a] by (simp add: delayFor_def Let_def round64_zero)









section \<open>Properties of the streaming generator\<close>

lemma callOnChunk_calls: "callOnChunk cb v w = (r, w') \<Longrightarrow> calls w' = calls w"
  by (auto simp: callOnChunk_def split: option.splits)

lemma consume_calls: "calls (snd (consume cs fin cb acc w)) = calls w"
proof (induction cs arbitrary: acc w)
  case Nil
  then show ?case by (cases fin) simp_all
next
  case (Cons c cs)
  show ?case
  proof (cases "chunk_text c")
    case None
    then show ?thesis by simp
  next
    case (Some t)
    obtain r w' where cb: "callOnChunk cb (JString t) w = (r, w')"
      by (cases "callOnChunk cb (JString t) w")
    from callOnChunk_calls [OF cb] have w': "calls w' = calls w" .
    show ?thesis
      using Some cb w' Cons.IH [of "acc @ t" w'] by (cases r) simp_all
  qed
qed

lemma collect_calls: "calls (snd (collect response cb w)) = calls w"
proof (cases response)
  case (AsyncIterable cs fin)
  obtain r w' where c: "consume cs fin cb [] w = (r, w')" by (cases "consume cs fin cb [] w")
  with consume_calls [of cs fin cb "[]" w] have "calls w' = calls w" by simp
  with AsyncIterable c show ?thesis by (cases r) (simp_all add: collect_def)
next
  case (Plain v)
  have on: "\<And>x. calls (snd (case callOnChunk cb x w of
                 (Some e, w') \<Rightarrow> (Inl e, w') | (None, w') \<Rightarrow> (Inr x, w'))) = calls w"
    by (auto split: prod.splits option.splits dest: callOnChunk_calls)
  show ?thesis
  proof (cases v)
    case (JString s)
    with Plain on [of "JString s"] show ?thesis by (simp add: collect_def)
  next
    case (JObject kvs)
    with Plain on show ?thesis by (simp add: collect_def split: option.splits)
  qed (use Plain in \<open>simp_all add: collect_def\<close>)
qed

lemma streamingBody_calls:
  "calls (snd (streamingBody key prompt config cb w)) = calls w @ [streamingCall key prompt config]"
proof (cases "provider w (length (calls w)) (streamingCall key prompt config)")
  case (Rejects e)
  then show ?thesis by (simp add: streamingBody_def run_def)
next
  case (Resolves response)
  let ?w1 = "w\<lparr>calls := calls w @ [streamingCall key prompt config]\<rparr>"
  obtain r w2 where c: "collect response cb ?w1 = (r, w2)" by (cases "collect response cb ?w1")
  with collect_calls [of response cb ?w1] have "calls w2 = calls w @ [streamingCall key prompt config]"
    by simp
  with Resolves c show ?thesis
    by (simp add: streamingBody_def run_def Let_def split: sum.splits json.splits)
qed

text \<open>
  Claim C10. Whenever the credential is present, the streaming entry point issues exactly one
  provider call, with streaming on, and its temperature is 0.7 when \<open>config.temperature\<close> is
  absent or 0 and \<open>config.temperature\<close> otherwise; so for a configuration whose temperature
  is 0 the call carries 0.7 and not 0.
\<close>

theorem streaming_temperature_zero_replaced:
  assumes "BYTEZ_KEY w = Some key"
  shows "\<exists>call sent.
           calls (snd (generateReadmeStreaming prompt config onChunk w)) = calls w @ [call]
         \<and> options call = Some \<lparr>stream = True, temperature_sent = sent\<rparr>
         \<and> sent = (case temperature config of None \<Rightarrow> 7 / 10
                    | Some t \<Rightarrow> if t = 0 then 7 / 10 else t)
         \<and> (temperature config = Some 0 \<longrightarrow> sent = 7 / 10 \<and> sent \<noteq> 0)"
proof -
  obtain r w' where b: "streamingBody key prompt config onChunk w = (r, w')"
    by (cases "streamingBody key prompt config onChunk w")
  with streamingBody_calls [of key prompt config onChunk w]
  have "calls w' = calls w @ [streamingCall key prompt config]" by simp
  with assms b
  have "calls (snd (generateReadmeStreaming prompt config onChunk w))
          = calls w @ [streamingCall key prompt config]"
    by (cases r) (simp_all add: generateReadmeStreaming_def)
  moreover have "options (streamingCall key prompt config)
          = Some \<lparr>stream = True,
                  temperature_sent = (case temperature config of None \<Rightarrow> 7 / 10
                                      | Some t \<Rightarrow> if t = 0 then 7 / 10 else t)\<rparr>"
    by (simp add: streamingCall_def split: option.splits)
  ultimately show ?thesis
    by (intro exI [of _ "streamingCall key prompt config"]
              exI [of _ "case temperature config of None \<Rightarrow> 7 / 10
                         | Some t \<Rightarrow> if t = 0 then 7 / 10 else t"])
       (auto split: option.splits)
qed

theorem streaming_temperature_zero_replaced_witness:
  "BYTEZ_KEY (world0 (Some (js ''key'')) networkDown) = Some (js ''key'')
   \<and> temperature (config0\<lparr>temperature := Some 0\<rparr>) = Some 0
   \<and> (\<exists>call. calls (snd (generateReadmeStreaming [] (config0\<lparr>temperature := Some 0\<rparr>) None
                             (world0 (Some (js ''key'')) networkDown))) = [call]
         \<and> options call = Some \<lparr>stream = True, temperature_sent = 7 / 10\<rparr>)"
proof -
  let ?w = "world0 (Some (js ''key'')) networkDown"
  let ?c = "config0\<lparr>temperature := Some 0\<rparr>"
  from streaming_temperature_zero_replaced [OF key_present, of "[]" ?c None networkDown]
  obtain call sent where
    c: "calls (snd (generateReadmeStreaming [] ?c None ?w)) = calls ?w @ [call]"
    and o: "options call = Some \<lparr>stream = True, temperature_sent = sent\<rparr>"
    and z: "temperature ?c = Some 0 \<longrightarrow> sent = 7 / 10 \<and> sent \<noteq> 0"
    by blast
  have t: "temperature ?c = Some 0" by simp
  with z have "sent = 7 / 10" by blast
  moreover have "calls ?w = []" by (simp add: world0_def)
  ultimately show ?thesis using c o t key_present by auto
qed




lemma ends_bol_lit_later: "ends cleanupFlags (Seq Bol r) (Some c) xs = []"
  by (simp add: cleanupFlags_def)



































section \<open>Properties of the response parsing\<close>

text \<open>
  Claim C8, as amended. The parsing of the payload never fails and follows this order: a
  string is taken as it is; otherwise an object whose \<open>content\<close> field is truthy gives that
  field; otherwise an object whose \<open>choices[0].message.content\<close> is truthy gives that value;
  otherwise an object or array is serialized with \<open>JSON.stringify\<close>; and a payload that is
  neither a string nor an object (\<open>undefined\<close>, \<open>null\<close>, a boolean, a number) gives the empty
  document.
\<close>

theorem parseOutput_priority:
  "parseOutput stringify (JString s) = JString s
   \<and> (map_of kvs (js ''content'') = Some c \<and> truthy c \<longrightarrow> parseOutput stringify (JObject kvs) = c)
   \<and> ((case map_of kvs' (js ''content'') of None \<Rightarrow> True | Some c' \<Rightarrow> \<not> truthy c')
        \<and> map_of kvs' (js ''choices'') = Some (JArray (JObject first # others))
        \<and> map_of first (js ''message'') = Some (JObject msg)
        \<and> map_of msg (js ''content'') = Some d \<and> truthy d
        \<longrightarrow> parseOutput stringify (JObject kvs') = d)
   \<and> ((v = JObject kvs'' \<or> v = JArray xs)
        \<and> \<not> truthy (getProp v (js ''content''))
        \<and> \<not> truthy (opt_prop (opt_prop (opt_index0 (getProp v (js ''choices''))) (js ''message''))
                       (js ''content''))
        \<longrightarrow> parseOutput stringify v = JString (stringify v))
   \<and> (u = JUndefined \<or> u = JNull \<or> u = JBool b \<or> u = JNumber x
        \<longrightarrow> parseOutput stringify u = JString [])"
  by (auto simp: parseOutput_def opt_prop_def opt_index0_def split: option.splits)

theorem parseOutput_priority_witness:
  "parseOutput stringify0 (JObject [(js ''content'', JString (js ''doc''))]) = JString (js ''doc'')
   \<and> parseOutput stringify0
        (JObject [(js ''choices'',
                   JArray [JObject [(js ''message'',
                                     JObject [(js ''content'', JString (js ''doc''))])]])])
        = JString (js ''doc'')
   \<and> parseOutput stringify0 (JObject []) = JString (js ''{}'')
   \<and> parseOutput stringify0 JNull = JString []"
proof -
  let ?kvs = "[(js ''content'', JString (js ''doc''))]"
  let ?first = "[(js ''message'', JObject ?kvs)]"
  let ?kvs' = "[(js ''choices'', JArray [JObject ?first])]"
  note t = parseOutput_priority [of stringify0 "[]" ?kvs "JString (js ''doc'')" ?kvs' ?first "[]"
              ?kvs "JString (js ''doc'')" "JObject []" "[]" "[]" JNull True 0]
  have h2: "map_of ?kvs (js ''content'') = Some (JString (js ''doc'')) \<and> truthy (JString (js ''doc''))"
    by (simp add: js_Nil)
  have h3: "(case map_of ?kvs' (js ''content'') of None \<Rightarrow> True | Some c' \<Rightarrow> \<not> truthy c')
        \<and> map_of ?kvs' (js ''choices'') = Some (JArray (JObject ?first # []))
        \<and> map_of ?first (js ''message'') = Some (JObject ?kvs)
        \<and> map_of ?kvs (js ''content'') = Some (JString (js ''doc'')) \<and> truthy (JString (js ''doc''))"
    by (simp add: js_inject js_Nil)
  have h4: "(JObject [] = JObject [] \<or> JObject [] = JArray [])
        \<and> \<not> truthy (getProp (JObject []) (js ''content''))
        \<and> \<not> truthy (opt_prop (opt_prop (opt_index0 (getProp (JObject []) (js ''choices'')))
                                (js ''message'')) (js ''content''))"
    by (simp add: opt_prop_def opt_index0_def)
  have s: "stringify0 (JObject []) = js ''{}''" by (simp add: stringify0_def)
  from t h2 h3 h4 show ?thesis by (simp add: s)
qed

text \<open>
  The claim as stated fails on two shapes: \<open>null\<close> gives the empty document, not its
  serialization \<open>"null"\<close>, and an object whose \<open>content\<close> is the empty string gives the
  serialization of the object, not that field.
\<close>

theorem parseOutput_not_serialized_counterexample:
  "parseOutput stringify0 JNull \<noteq> JString (stringify0 JNull)
   \<and> parseOutput stringify0 (JObject [(js ''content'', JString [])]) \<noteq> JString []"
  by (simp add: parseOutput_def stringify0_def opt_prop_def opt_index0_def js_def)

section \<open>Evaluation of the examples\<close>

lemma x_cleanup: "cleanup (js ''x'') = js ''x''"
  by code_simp

lemma x_invalid: "validateReadmeOutput (js ''x'') =
   \<lparr>valid = False, errors = [js ''README is too short (less than 200 characters)'',
                              js ''Missing essential section headers'']\<rparr>"
  by code_simp

lemma good_cleanup: "cleanup goodDocument = goodDocument"
  by code_simp

lemma good_valid: "validateReadmeOutput goodDocument = \<lparr>valid = True, errors = []\<rparr>"
  by code_simp

lemmas run_simps =
  generateReadmeWithFallback_def generateReadme_def withExponentialBackoff_def
  backoff_loop.simps generateOnce_def BYTEZ_KEY_def nonEmpty_def world0_def scheduler0_def
  run_def response_value_def parseOutput_def Let_def js_inject js_Nil
  delayFor_no_jitter round64_numeral

section \<open>Properties of the output validator\<close>

text \<open>The checks accumulate in the order of the source, and \<open>valid\<close> says that none failed.\<close>

lemma validate_errors_accumulate:
  "errors (validateReadmeOutput s) =
     (if length s < 200 then [js ''README is too short (less than 200 characters)''] else [])
     @ (if (case match_g headerFlags headerRe s of None \<Rightarrow> True | Some ms \<Rightarrow> length ms < 2)
        then [js ''Missing essential section headers''] else [])
     @ (if odd (length (case match_g fenceFlags fenceRe s of None \<Rightarrow> [] | Some ms \<Rightarrow> ms))
        then [js ''Unclosed code block detected''] else [])
     @ (if test metaFlags metaCommentary (slice0 s 500)
        then [js ''AI meta-commentary detected in output''] else [])"
  by (simp add: validateReadmeOutput_def Let_def odd_iff_mod_2_eq_one)

lemma validate_valid_iff: "valid (validateReadmeOutput s) \<longleftrightarrow> errors (validateReadmeOutput s) = []"
  by (simp add: validateReadmeOutput_def Let_def)

lemma match_g_all:
  "(case match_g f r s of None \<Rightarrow> [] | Some ms \<Rightarrow> ms) = scan f r None s 0"
  by (cases "scan f r None s 0") (simp_all add: match_g_def)

text \<open>An odd number of fence matches is always reported, whatever else the document holds.\<close>

lemma validate_odd_fences:
  assumes "odd (length (scan fenceFlags fenceRe None s 0))"
  shows "js ''Unclosed code block detected'' \<in> set (errors (validateReadmeOutput s))"
  using assms by (simp add: validate_errors_accumulate match_g_all)

lemma lone_length: "length loneHashes = 231"
  by code_simp

lemma lone_no_heading_line: "spec_heading_lines loneHashes = []"
  by code_simp

lemma lone_accepted: "validateReadmeOutput loneHashes = \<lparr>valid = True, errors = []\<rparr>"
  by code_simp

lemma lone_matches:
  "match_g headerFlags headerRe loneHashes
     = Some [js ''#\<newline>Overview'', js ''#\<newline>Usage'']"
  by code_simp

text \<open>
  Claim C6, at a failing input. \<open>loneHashes\<close> has 231 code units and no line that starts
  with one to three \<open>#\<close> followed by whitespace and text: its two \<open>#\<close> stand alone on their
  lines. The claim therefore has \<open>validate\<close> report the missing headers. The code reports
  nothing and declares the document valid: the \<open>\s+\<close> of the heading pattern runs over
  the line break, so \<open>#\<close>, the line break and the next line together count as a heading.
\<close>

theorem validate_lone_hashes_accepted:
  "length loneHashes = 231
   \<and> spec_heading_lines loneHashes = []
   \<and> match_g headerFlags headerRe loneHashes
        = Some [js ''#\<newline>Overview'', js ''#\<newline>Usage'']
   \<and> validateReadmeOutput loneHashes = \<lparr>valid = True, errors = []\<rparr>"
  by (simp add: lone_length lone_no_heading_line lone_matches lone_accepted)

section \<open>Properties of the non-streaming generator\<close>

text \<open>
  Without a credential every attempt of the closure fails at its first step, and the
  scheduler sleeps three times before the error surfaces, whatever the scheduler's state.
\<close>

lemma generate_missing_key_sleeps:
  assumes "BYTEZ_KEY w = None"
  shows "\<exists>d0 d1 d2 sc'.
           generateReadme prompt config sc w = (Inl missingKey, sc', w)
         \<and> sleeps sc' = sleeps sc @ [d0, d1, d2]"
proof -
  have once: "generateOnce prompt config w = (Inl missingKey, w)"
    using assms by (simp add: generateOnce_def)
  show ?thesis
    by (simp add: generateReadme_def withExponentialBackoff_def backoff_loop.simps once Let_def)
qed

text \<open>
  Claim C1, at a failing input. With neither environment variable set, \<open>generateReadme\<close>
  does fail with the non-retryable \<open>AUTH_ERROR\<close>, but not before any retry wrapping: the
  credential check is inside the closure handed to \<open>withExponentialBackoff\<close>, which retries
  it three times and sleeps 1000, 2000 and 4000 ms (plus jitter, here 0) before the error
  surfaces.
\<close>

theorem generate_missing_key_is_retried:
  "generateReadme [] config0 scheduler0 (world0 None networkDown)
   = (Inl (ReadmeGenerationError (js ''Missing BYTEZ_API_KEY in environment variables'')
             AUTH_ERROR False None),
      scheduler0\<lparr>draws := 3,
                 retryWarnings := [(1, 3, 1000), (2, 3, 2000), (3, 3, 4000)],
                 sleeps := [1000, 2000, 4000]\<rparr>,
      world0 None networkDown)"
  by (simp add: run_simps missingKey_def)

text \<open>
  Claim C2, at a failing input. When \<open>model.run\<close> rejects with a network exception on every
  attempt, \<open>generateReadme\<close> fails with that very exception, which is no
  \<open>ReadmeGenerationError\<close>: its closure has no \<open>catch\<close>. The streaming entry point classifies
  the same exception as a retryable \<open>NETWORK_ERROR\<close>.
\<close>

theorem generate_raw_error_escapes:
  "fst (generateReadme [] config0 scheduler0 (world0 (Some (js ''key'')) networkDown))
     = Inl (Raw \<lparr>message = Some (js ''network timeout''), errcode = None\<rparr>)
   \<and> \<not> isReadmeGenerationError
         (projl (fst (generateReadme [] config0 scheduler0
                        (world0 (Some (js ''key'')) networkDown))))
   \<and> fst (generateReadmeStreaming [] config0 None (world0 (Some (js ''key'')) networkDown))
     = Inl (ReadmeGenerationError (js ''Network error occurred. Check your connection.'')
              NETWORK_ERROR True
              (Some (Inl \<lparr>message = Some (js ''network timeout''), errcode = None\<rparr>)))"
  by (simp add: run_simps networkDown_def generateReadmeStreaming_def streamingBody_def
        classify_def message_includes_def js_def)

section \<open>Properties of the fallback orchestrator\<close>

lemma backoff_error_from_operation:
  "backoff_loop operation maxRetries baseDelay attempt sc s = (Inl e, sc', s')
     \<Longrightarrow> \<exists>s0 s1. operation s0 = (Inl e, s1)"
proof (induction operation maxRetries baseDelay attempt sc s rule: backoff_loop.induct)
  case (1 operation maxRetries baseDelay attempt sc s)
  obtain r s1 where op: "operation s = (r, s1)" by (cases "operation s")
  show ?case
  proof (cases r)
    case (Inr v)
    with op "1.prems" show ?thesis by (subst (asm) backoff_loop.simps) simp
  next
    case (Inl error)
    show ?thesis
    proof (cases "int attempt \<ge> maxRetries")
      case True
      with op Inl "1.prems" have "error = e" by (subst (asm) backoff_loop.simps) simp
      with op Inl show ?thesis by blast
    next
      case False
      note ih = "1.IH" [OF op [symmetric] Inl False refl refl]
      from op Inl False "1.prems" show ?thesis
        by (subst (asm) backoff_loop.simps) (simp add: Let_def ih)
    qed
  qed
qed

lemma generateOnce_unknown_retryable:
  "generateOnce prompt config w = (Inl (ReadmeGenerationError msg UNKNOWN r orig), w') \<Longrightarrow> r"
  by (auto simp: generateOnce_def missingKey_def run_def Let_def
           split: option.splits outcome.splits if_splits json.splits prod.splits)

text \<open>
  Claim C4, as amended. Whenever a per-model attempt of the orchestrator fails with a
  \<open>ReadmeGenerationError\<close> of code \<open>UNKNOWN\<close>, that error is marked retryable (the
  non-streaming generator creates \<open>UNKNOWN\<close> only for an error reported in the provider's
  payload, with \<open>retryable = true\<close>), and the orchestrator treats it as any retryable error:
  it propagates it when the failing candidate is the last of the list and proceeds to the
  next candidate otherwise.
\<close>

theorem fallback_unknown_is_retryable:
  assumes "generateReadme prompt (config\<lparr>model := Some m\<rparr>) sc
             (w\<lparr>console := console w @ [Attempting m]\<rparr>)
           = (Inl (ReadmeGenerationError msg UNKNOWN r orig), sc', w')"
  shows "r \<and> fallback_loop ms (m # rest) prompt config sc w
               = (if isLastModel ms m
                  then (Inl (ReadmeGenerationError msg UNKNOWN r orig), sc', w')
                  else fallback_loop ms rest prompt config sc'
                         (w'\<lparr>console := console w' @ [FailedTryingNext m]\<rparr>))"
proof -
  from assms
  have "backoff_loop (generateOnce prompt (config\<lparr>model := Some m\<rparr>)) 3 1000 0 sc
          (w\<lparr>console := console w @ [Attempting m]\<rparr>)
        = (Inl (ReadmeGenerationError msg UNKNOWN r orig), sc', w')"
    by (simp add: generateReadme_def withExponentialBackoff_def)
  from backoff_error_from_operation [OF this]
  obtain s0 s1 where "generateOnce prompt (config\<lparr>model := Some m\<rparr>) s0
                        = (Inl (ReadmeGenerationError msg UNKNOWN r orig), s1)"
    by blast
  then have r by (rule generateOnce_unknown_retryable)
  with assms show ?thesis by simp
qed

lemma unknown_cause:
  "generateReadme [] (config0\<lparr>model := Some (js ''openai/gpt-4o'')\<rparr>) scheduler0
     ((world0 (Some (js ''key'')) reportsError)
        \<lparr>console := console (world0 (Some (js ''key'')) reportsError)
                       @ [Attempting (js ''openai/gpt-4o'')]\<rparr>)
   = (Inl (ReadmeGenerationError (js ''Bytez API Error: '' @ stringify0 (JString (js ''overloaded'')))
             UNKNOWN True (Some (Inr (JString (js ''overloaded''))))),
      scheduler0\<lparr>draws := 3, retryWarnings := [(1, 3, 1000), (2, 3, 2000), (3, 3, 4000)],
                 sleeps := [1000, 2000, 4000]\<rparr>,
      (world0 (Some (js ''key'')) reportsError)
        \<lparr>console := [Attempting (js ''openai/gpt-4o'')],
         calls := replicate 4 (plainCall (js ''key'') []
                                 (config0\<lparr>model := Some (js ''openai/gpt-4o'')\<rparr>))\<rparr>)"
  by (simp add: run_simps reportsError_def replicate4)

theorem fallback_unknown_is_retryable_witness:
  "generateReadme [] (config0\<lparr>model := Some (js ''openai/gpt-4o'')\<rparr>) scheduler0
     ((world0 (Some (js ''key'')) reportsError)
        \<lparr>console := console (world0 (Some (js ''key'')) reportsError)
                       @ [Attempting (js ''openai/gpt-4o'')]\<rparr>)
   = (Inl (ReadmeGenerationError (js ''Bytez API Error: '' @ stringify0 (JString (js ''overloaded'')))
             UNKNOWN True (Some (Inr (JString (js ''overloaded''))))),
      scheduler0\<lparr>draws := 3, retryWarnings := [(1, 3, 1000), (2, 3, 2000), (3, 3, 4000)],
                 sleeps := [1000, 2000, 4000]\<rparr>,
      (world0 (Some (js ''key'')) reportsError)
        \<lparr>console := [Attempting (js ''openai/gpt-4o'')],
         calls := replicate 4 (plainCall (js ''key'') []
                                 (config0\<lparr>model := Some (js ''openai/gpt-4o'')\<rparr>))\<rparr>)
   \<and> fallback_loop models (js ''openai/gpt-4o'' # tl models) [] config0 scheduler0
        (world0 (Some (js ''key'')) reportsError)
     = fallback_loop models (tl models) [] config0
         (scheduler0\<lparr>draws := 3, retryWarnings := [(1, 3, 1000), (2, 3, 2000), (3, 3, 4000)],
                     sleeps := [1000, 2000, 4000]\<rparr>)
         ((world0 (Some (js ''key'')) reportsError)
            \<lparr>console := [Attempting (js ''openai/gpt-4o''),
                          FailedTryingNext (js ''openai/gpt-4o'')],
             calls := replicate 4 (plainCall (js ''key'') []
                                     (config0\<lparr>model := Some (js ''openai/gpt-4o'')\<rparr>))\<rparr>)"
proof -
  have notLast: "\<not> isLastModel models (js ''openai/gpt-4o'')"
    by (simp add: isLastModel_def models_def js_inject)
  from fallback_unknown_is_retryable [OF unknown_cause, of models "tl models"] notLast
  show ?thesis using unknown_cause by (simp add: world0_def)
qed

text \<open>
  The claim as stated fails: when the provider reports an error in every payload, each
  attempt fails with \<open>UNKNOWN\<close>, and the orchestrator goes through all four candidates.
\<close>

theorem fallback_unknown_proceeds_counterexample:
  "map modelName
     (calls (snd (snd (generateReadmeWithFallback [] config0 scheduler0
                         (world0 (Some (js ''key'')) reportsError)))))
   = replicate 4 (js ''openai/gpt-4o'') @ replicate 4 (js ''openai/gpt-4-turbo'')
     @ replicate 4 (js ''anthropic/claude-3-5-sonnet-20241022'')
     @ replicate 4 (js ''openai/gpt-3.5-turbo'')"
  by (simp add: generateReadmeWithFallback_def run_simps reportsError_def models_def
        isLastModel_def plainCall_def modelNameOf_def replicate4)


text \<open>One round of the loop: a success ends it, a failure is decided on its mark.\<close>

lemma fallback_success:
  assumes "generateReadme prompt (config\<lparr>model := Some m\<rparr>) sc
             (w\<lparr>console := console w @ [Attempting m]\<rparr>) = (Inr md, sc', w')"
  shows "fallback_loop ms (m # rest) prompt config sc w
           = (Inr \<lparr>markdown = md, modelUsed = m\<rparr>, sc', w')"
  using assms by simp

lemma fallback_marked_failure:
  assumes "generateReadme prompt (config\<lparr>model := Some m\<rparr>) sc
             (w\<lparr>console := console w @ [Attempting m]\<rparr>)
           = (Inl (ReadmeGenerationError msg c r orig), sc', w')"
  shows "fallback_loop ms (m # rest) prompt config sc w
           = (if \<not> r \<or> isLastModel ms m
              then (Inl (ReadmeGenerationError msg c r orig), sc', w')
              else fallback_loop ms rest prompt config sc'
                     (w'\<lparr>console := console w' @ [FailedTryingNext m]\<rparr>))"
  using assms by simp

lemma fallback_raw_failure:
  assumes "generateReadme prompt (config\<lparr>model := Some m\<rparr>) sc
             (w\<lparr>console := console w @ [Attempting m]\<rparr>) = (Inl (Raw e), sc', w')"
  shows "fallback_loop ms (m # rest) prompt config sc w = (Inl (Raw e), sc', w')"
  using assms by simp

text \<open>In the list of the source the last candidate is the fourth, and no other.\<close>

lemma models_last: "isLastModel models m \<longleftrightarrow> m = js ''openai/gpt-3.5-turbo''"
  by (simp add: isLastModel_def models_def)

lemma models_distinct: "distinct models"
  by (simp add: models_def js_inject)

text \<open>
  When the first candidate fails four times with an invalid document and the second then
  answers well, the second is the model used and the third is never called.
\<close>

lemma fallback_second_candidate:
  "fst (generateReadmeWithFallback [] config0 scheduler0
          (world0 (Some (js ''key'')) fifthAnswerGood))
     = Inr \<lparr>markdown = goodDocument, modelUsed = js ''openai/gpt-4-turbo''\<rparr>
   \<and> map modelName (calls (snd (snd (generateReadmeWithFallback [] config0 scheduler0
                                        (world0 (Some (js ''key'')) fifthAnswerGood)))))
     = replicate 4 (js ''openai/gpt-4o'') @ [js ''openai/gpt-4-turbo'']"
  by (simp add: run_simps fifthAnswerGood_def answersX_def x_cleanup x_invalid good_cleanup
        good_valid plainCall_def modelNameOf_def models_def isLastModel_def replicate4)

text \<open>
  Claim C3, at a failing input. When \<open>model.run\<close> rejects with a network exception, the
  first candidate fails with that exception, which carries no \<open>retryable\<close> mark at all; the
  first candidate is not the last of the list; and yet the orchestrator propagates the
  exception and calls no further candidate, because it reads the missing mark as
  \<open>!err.retryable\<close>. The streaming entry point marks the same exception as retryable.
\<close>

theorem fallback_raw_error_stops:
  "fst (generateReadmeWithFallback [] config0 scheduler0
          (world0 (Some (js ''key'')) networkDown))
     = Inl (Raw \<lparr>message = Some (js ''network timeout''), errcode = None\<rparr>)
   \<and> \<not> isReadmeGenerationError
         (projl (fst (generateReadmeWithFallback [] config0 scheduler0
                        (world0 (Some (js ''key'')) networkDown))))
   \<and> map modelName (calls (snd (snd (generateReadmeWithFallback [] config0 scheduler0
                                        (world0 (Some (js ''key'')) networkDown)))))
     = replicate 4 (js ''openai/gpt-4o'')
   \<and> models = js ''openai/gpt-4o'' # tl models
   \<and> \<not> isLastModel models (js ''openai/gpt-4o'')
   \<and> fst (generateReadmeStreaming [] (config0\<lparr>model := Some (js ''openai/gpt-4o'')\<rparr>) None
            (world0 (Some (js ''key'')) networkDown))
     = Inl (ReadmeGenerationError (js ''Network error occurred. Check your connection.'')
              NETWORK_ERROR True
              (Some (Inl \<lparr>message = Some (js ''network timeout''), errcode = None\<rparr>)))"
  by (simp add: run_simps networkDown_def models_def isLastModel_def plainCall_def
        modelNameOf_def replicate4 generateReadmeStreaming_def streamingBody_def
        classify_def message_includes_def js_def)

end
